theory Spec2Isabelle
  imports Main
begin

section \<open>The API tester: data model\<close>

text \<open>
  The program is a Go command (\<^verbatim>\<open>cmd/api-tester/main.go\<close>) with three packages:
  \<^verbatim>\<open>internal/config\<close>, \<^verbatim>\<open>internal/auth\<close> and \<^verbatim>\<open>internal/client\<close>.

  A Go \<^verbatim>\<open>error\<close> is modelled by the text of its \<^verbatim>\<open>Error()\<close> method; a nilable error
  is an \<open>error option\<close> (\<open>None\<close> is \<^verbatim>\<open>nil\<close>). \<^verbatim>\<open>fmt.Errorf("...: %w", err)\<close> and
  \<^verbatim>\<open>fmt.Sprintf("...: %v", err)\<close> both produce the prefix followed by that text.

  Everything outside the process (the identity provider, the network, the clock) is a
  world of type \<open>'w\<close> that is passed through every call that touches it. Console output
  is not modelled, so the \<^verbatim>\<open>verbose\<close> flag, which only selects what is printed, has no
  parameter here; nor is \<^verbatim>\<open>context.Context\<close>, whose deadline acts inside the external
  calls and shows to the program only as the error they return.
\<close>

type_synonym error = string

text \<open>\<^verbatim>\<open>map[string]interface{}\<close>: \<open>None\<close> is the nil map, \<open>Some m\<close> a map (possibly empty).\<close>

type_synonym 'v RequestBody = "(string \<rightharpoonup> 'v) option"

record 'v Endpoint =
  Name :: string
  URL :: string
  Method :: string
  ClientID :: string
  ClientSecret :: string
  TenantID :: string
  Scope :: string
  RequestBody :: "'v RequestBody"

record 'v Config =
  Endpoints :: "'v Endpoint list"

text \<open>\<^verbatim>\<open>TestResult\<close> of \<^verbatim>\<open>main.go\<close>; \<open>Duration\<close> is in nanoseconds.\<close>

record TestResult =
  EndpointName :: string
  ErrorMessage :: string
  Duration :: int
  StatusCode :: int
  Success :: bool
  AuthSuccess :: bool
  ConnectSuccess :: bool
  ResponseSuccess :: bool

text \<open>
  \<^verbatim>\<open>http.Request\<close> as far as \<^verbatim>\<open>CallAPI\<close> fills it: the body reader is \<open>None\<close> when
  \<^verbatim>\<open>bodyReader\<close> is nil, the header is \<^verbatim>\<open>http.Header\<close> (a map from a key to a list of values).
\<close>

type_synonym Header = "string \<rightharpoonup> string list"

record Request =
  ReqMethod :: string
  ReqURL :: string
  ReqBody :: "string option"
  ReqHeader :: Header

text \<open>
  \<^verbatim>\<open>http.Response\<close>: \<open>HttpBody\<close> is what \<^verbatim>\<open>io.ReadAll(resp.Body)\<close> yields, the bytes or
  the read error.
\<close>

record HttpResponse =
  HttpStatusCode :: int
  HttpHeader :: Header
  HttpBody :: "error + string"

text \<open>\<^verbatim>\<open>client.Response\<close>.\<close>

record Response =
  RespHeaders :: Header
  RespBody :: string
  RespStatusCode :: int

text \<open>The interface \<^verbatim>\<open>client.HTTPClient\<close> (method \<^verbatim>\<open>Do\<close>) and the struct \<^verbatim>\<open>client.APIClient\<close>.\<close>

type_synonym 'w HTTPClient = "Request \<Rightarrow> 'w \<Rightarrow> (error + HttpResponse) \<times> 'w"

record 'w APIClient =
  httpClient :: "'w HTTPClient"
  timeout :: int

text \<open>
  The interface \<^verbatim>\<open>auth.TokenProvider\<close>: \<^verbatim>\<open>GetAccessToken(ctx, clientID, clientSecret,
  tenantID, scope) (string, error)\<close>. An implementation may return any pair.
\<close>

type_synonym 'w TokenProvider =
  "string \<Rightarrow> string \<Rightarrow> string \<Rightarrow> string \<Rightarrow> 'w \<Rightarrow> (string \<times> error option) \<times> 'w"

text \<open>
  The standard-library functions the tester calls and that are not modelled further:
  \<^verbatim>\<open>time.Now\<close> (a clock reading of the world, in nanoseconds), \<^verbatim>\<open>json.Marshal\<close> on a
  request body, and the check of \<^verbatim>\<open>http.NewRequestWithContext\<close> on a method and a URL
  (\<open>Some e\<close> when it refuses them).
\<close>

record ('w, 'v) Lib =
  time_Now :: "'w \<Rightarrow> int"
  json_Marshal :: "(string \<rightharpoonup> 'v) \<Rightarrow> error + string"
  http_NewRequest :: "string \<Rightarrow> string \<Rightarrow> error option"

section \<open>Formatting integers (\<^verbatim>\<open>%d\<close>)\<close>

text \<open>
  The decimal text that the verb \<^verbatim>\<open>%d\<close> prints: \<open>decimal\<close> for a number that is not
  negative, \<open>format_d\<close> for a Go \<^verbatim>\<open>int\<close>.
\<close>

definition digit :: "nat \<Rightarrow> char" where
  "digit d = char_of (d + 48)"

fun decimal :: "nat \<Rightarrow> string" where
  "decimal n = (if 10 \<le> n then decimal (n div 10) @ [digit (n mod 10)] else [digit n])"

declare decimal.simps [simp del]

definition format_d :: "int \<Rightarrow> string" where
  "format_d i = (if 0 \<le> i then decimal (nat i) else CHR ''-'' # decimal (nat (- i)))"

section \<open>Package \<^verbatim>\<open>client\<close>\<close>

text \<open>\<^verbatim>\<open>Header.Set\<close> replaces the values of a key by the single value given.\<close>

definition Header_Set :: "Header \<Rightarrow> string \<Rightarrow> string \<Rightarrow> Header" where
  "Header_Set h k v = h(k \<mapsto> [v])"

text \<open>
  The first half of \<^verbatim>\<open>CallAPI\<close>, up to the request that is handed to \<^verbatim>\<open>httpClient.Do\<close>:
  the body is prepared, the request created, the headers set.
  \<^verbatim>\<open>http.NewRequestWithContext\<close> stores the method it is given, and \<^verbatim>\<open>GET\<close> for the empty
  method.
\<close>

definition prepareRequest ::
  "('w, 'v) Lib \<Rightarrow> string \<Rightarrow> string \<Rightarrow> string \<Rightarrow> 'v RequestBody \<Rightarrow> error + Request" where
  "prepareRequest lib method url accessToken requestBody =
     (case (if requestBody \<noteq> None \<and> (method = ''POST'' \<or> method = ''PUT'' \<or> method = ''PATCH'')
            then (case json_Marshal lib (the requestBody) of
                    Inl err \<Rightarrow> Inl (''failed to marshal request body: '' @ err)
                  | Inr jsonBody \<Rightarrow> Inr (Some jsonBody))
            else Inr None) of
        Inl e \<Rightarrow> Inl e
      | Inr bodyReader \<Rightarrow>
          (case http_NewRequest lib method url of
             Some err \<Rightarrow> Inl (''failed to create request: '' @ err)
           | None \<Rightarrow>
               (let req = \<lparr>ReqMethod = (if method = '''' then ''GET'' else method), ReqURL = url,
                           ReqBody = bodyReader,
                           ReqHeader = Map.empty\<rparr>;
                    req = req\<lparr>ReqHeader :=
                            Header_Set (ReqHeader req) ''Authorization'' (''Bearer '' @ accessToken)\<rparr>;
                    req = (if requestBody \<noteq> None
                           then req\<lparr>ReqHeader :=
                                  Header_Set (ReqHeader req) ''Content-Type'' ''application/json''\<rparr>
                           else req)
                in Inr req)))"

definition CallAPI ::
  "('w, 'v) Lib \<Rightarrow> 'w APIClient \<Rightarrow> string \<Rightarrow> string \<Rightarrow> string \<Rightarrow> 'v RequestBody \<Rightarrow> 'w
     \<Rightarrow> (error + Response) \<times> 'w" where
  "CallAPI lib c method url accessToken requestBody w =
     (case prepareRequest lib method url accessToken requestBody of
        Inl e \<Rightarrow> (Inl e, w)
      | Inr req \<Rightarrow>
          (case httpClient c req w of
             (Inl err, w') \<Rightarrow> (Inl (''failed to execute request: '' @ err), w')
           | (Inr resp, w') \<Rightarrow>
               (case HttpBody resp of
                  Inl err \<Rightarrow> (Inl (''failed to read response body: '' @ err), w')
                | Inr body \<Rightarrow>
                    (Inr \<lparr>RespHeaders = HttpHeader resp, RespBody = body,
                          RespStatusCode = HttpStatusCode resp\<rparr>, w'))))"

definition IsSuccessStatusCode :: "Response \<Rightarrow> bool" where
  "IsSuccessStatusCode r = (RespStatusCode r \<ge> 200 \<and> RespStatusCode r < 300)"

section \<open>The endpoint tester\<close>

definition testEndpoint ::
  "('w, 'v) Lib \<Rightarrow> 'v Endpoint \<Rightarrow> 'w TokenProvider \<Rightarrow> 'w APIClient \<Rightarrow> 'w \<Rightarrow> TestResult \<times> 'w" where
  "testEndpoint lib endpoint tokenProvider apiClient w =
     (let result = \<lparr>EndpointName = Name endpoint, ErrorMessage = '''', Duration = 0,
                     StatusCode = 0, Success = False, AuthSuccess = False,
                     ConnectSuccess = False, ResponseSuccess = False\<rparr>;
          startTime = time_Now lib w
      in case tokenProvider (ClientID endpoint) (ClientSecret endpoint) (TenantID endpoint)
                (Scope endpoint) w of
           ((token, Some err), w1) \<Rightarrow>
             (result\<lparr>ErrorMessage := ''Authentication failed: '' @ err,
                     Duration := time_Now lib w1 - startTime\<rparr>, w1)
         | ((token, None), w1) \<Rightarrow>
             (let result = result\<lparr>AuthSuccess := True\<rparr>
              in case CallAPI lib apiClient (Method endpoint) (URL endpoint) token
                        (RequestBody endpoint) w1 of
                   (Inl err, w2) \<Rightarrow>
                     (result\<lparr>ErrorMessage := ''Request failed: '' @ err,
                             Duration := time_Now lib w2 - startTime\<rparr>, w2)
                 | (Inr response, w2) \<Rightarrow>
                     (let result = result\<lparr>ConnectSuccess := True,
                                          StatusCode := RespStatusCode response,
                                          Duration := time_Now lib w2 - startTime\<rparr>
                      in if IsSuccessStatusCode response
                         then (result\<lparr>ResponseSuccess := True, Success := True\<rparr>, w2)
                         else (result\<lparr>ErrorMessage := ''Unexpected status code: ''
                                          @ format_d (RespStatusCode response)\<rparr>, w2))))"

section \<open>Package \<^verbatim>\<open>auth\<close>\<close>

text \<open>
  The Azure Identity SDK as \<^verbatim>\<open>GetAccessToken\<close> uses it:
  \<^verbatim>\<open>azidentity.NewClientSecretCredential(tenantID, clientID, clientSecret, nil)\<close> gives a
  credential of type \<open>'c\<close> or an error, and \<^verbatim>\<open>credential.GetToken\<close> with a list of scopes
  gives the token text of the \<^verbatim>\<open>azcore.AccessToken\<close> and an error.
\<close>

record ('w, 'c) Azidentity =
  NewClientSecretCredential :: "string \<Rightarrow> string \<Rightarrow> string \<Rightarrow> error + 'c"
  GetToken :: "'c \<Rightarrow> string list \<Rightarrow> 'w \<Rightarrow> (string \<times> error option) \<times> 'w"

record EntraIDTokenProvider =
  provider_timeout :: int

definition Second :: int where
  "Second = 1000000000"

definition NewEntraIDTokenProvider :: EntraIDTokenProvider where
  "NewEntraIDTokenProvider = \<lparr>provider_timeout = 30 * Second\<rparr>"

definition GetAccessToken :: "('w, 'c) Azidentity \<Rightarrow> EntraIDTokenProvider \<Rightarrow> 'w TokenProvider" where
  "GetAccessToken az p clientID clientSecret tenantID scope w =
     (case NewClientSecretCredential az tenantID clientID clientSecret of
        Inl err \<Rightarrow> (('''', Some (''failed to create credential: '' @ err)), w)
      | Inr credential \<Rightarrow>
          (case GetToken az credential [scope] w of
             ((token, Some err), w') \<Rightarrow> (('''', Some (''failed to acquire token: '' @ err)), w')
           | ((token, None), w') \<Rightarrow>
               if token = '''' then (('''', Some ''received empty token''), w')
               else ((token, None), w')))"

text \<open>\<^verbatim>\<open>MockTokenProvider\<close> of \<^verbatim>\<open>auth_test.go\<close>, the other implementation of the interface.\<close>

record MockTokenProvider =
  TokenToReturn :: string
  ErrorToReturn :: "error option"

definition Mock_GetAccessToken :: "MockTokenProvider \<Rightarrow> 'w TokenProvider" where
  "Mock_GetAccessToken m clientID clientSecret tenantID scope w =
     (if ErrorToReturn m \<noteq> None then (('''', ErrorToReturn m), w)
      else ((TokenToReturn m, None), w))"

section \<open>Package \<^verbatim>\<open>config\<close>\<close>

definition validMethods :: "string \<rightharpoonup> bool" where
  "validMethods = [''GET'' \<mapsto> True, ''POST'' \<mapsto> True, ''PUT'' \<mapsto> True,
                   ''PATCH'' \<mapsto> True, ''DELETE'' \<mapsto> True]"

text \<open>Reading a Go map at a missing key gives the zero value, here \<^verbatim>\<open>false\<close>.\<close>

definition map_index :: "(string \<rightharpoonup> bool) \<Rightarrow> string \<Rightarrow> bool" where
  "map_index m k = (case m k of None \<Rightarrow> False | Some b \<Rightarrow> b)"

definition Endpoint_Validate :: "'v Endpoint \<Rightarrow> error option" where
  "Endpoint_Validate e =
     (if Name e = '''' then Some ''name is required''
      else if URL e = '''' then Some ''url is required''
      else if Method e = '''' then Some ''method is required''
      else if \<not> map_index validMethods (Method e)
        then Some (''invalid HTTP method: '' @ Method e
                   @ '' (must be GET, POST, PUT, PATCH, or DELETE)'')
      else if ClientID e = '''' then Some ''clientId is required''
      else if ClientSecret e = '''' then Some ''clientSecret is required''
      else if TenantID e = '''' then Some ''tenantId is required''
      else if Scope e = '''' then Some ''scope is required''
      else None)"

text \<open>The loop of \<^verbatim>\<open>Config.Validate\<close> over the endpoints, \<open>i\<close> the index of the first one.\<close>

fun validateEndpoints :: "nat \<Rightarrow> 'v Endpoint list \<Rightarrow> error option" where
  "validateEndpoints i [] = None"
| "validateEndpoints i (endpoint # rest) =
     (case Endpoint_Validate endpoint of
        Some err \<Rightarrow>
          Some (''endpoint '' @ decimal i @ '' ('' @ Name endpoint @ ''): '' @ err)
      | None \<Rightarrow> validateEndpoints (Suc i) rest)"

definition Config_Validate :: "'v Config \<Rightarrow> error option" where
  "Config_Validate c =
     (if length (Endpoints c) = 0 then Some ''no endpoints defined in configuration''
      else validateEndpoints 0 (Endpoints c))"

text \<open>
  The file system and the JSON decoder as \<^verbatim>\<open>LoadConfig\<close> uses them: \<^verbatim>\<open>os.Open\<close> gives a
  file of type \<open>'f\<close> or an error, \<^verbatim>\<open>json.NewDecoder(file).Decode(&config)\<close> a configuration
  or an error.
\<close>

record ('v, 'f) Files =
  os_Open :: "string \<Rightarrow> error + 'f"
  json_Decode :: "'f \<Rightarrow> error + 'v Config"

definition LoadConfig :: "('v, 'f) Files \<Rightarrow> string \<Rightarrow> error + 'v Config" where
  "LoadConfig fs filePath =
     (case os_Open fs filePath of
        Inl err \<Rightarrow> Inl (''failed to open config file: '' @ err)
      | Inr file \<Rightarrow>
          (case json_Decode fs file of
             Inl err \<Rightarrow> Inl (''failed to decode config file: '' @ err)
           | Inr config \<Rightarrow>
               (case Config_Validate config of
                  Some err \<Rightarrow> Inl (''invalid configuration: '' @ err)
                | None \<Rightarrow> Inr config)))"

section \<open>The run: \<^verbatim>\<open>main\<close>, \<^verbatim>\<open>printSummary\<close>, \<^verbatim>\<open>hasFailures\<close>\<close>

text \<open>
  The counters of \<^verbatim>\<open>printSummary\<close>. They are Go \<^verbatim>\<open>int\<close>s that count elements of a slice,
  so none of them can overflow. \<open>total\<close> is \<^verbatim>\<open>len(results)\<close>, the divisor of both
  percentages that the function prints (\<^verbatim>\<open>float64(passed)/float64(total)*100\<close> and
  \<^verbatim>\<open>float64(total-passed)/float64(total)*100\<close>).
\<close>

record Summary =
  total :: int
  passed :: int
  authFailed :: int
  connectFailed :: int
  responseFailed :: int

fun countResults :: "TestResult list \<Rightarrow> Summary \<Rightarrow> Summary" where
  "countResults [] s = s"
| "countResults (result # rest) s =
     countResults rest
       (if Success result then s\<lparr>passed := passed s + 1\<rparr>
        else if \<not> AuthSuccess result then s\<lparr>authFailed := authFailed s + 1\<rparr>
        else if \<not> ConnectSuccess result then s\<lparr>connectFailed := connectFailed s + 1\<rparr>
        else s\<lparr>responseFailed := responseFailed s + 1\<rparr>)"

definition printSummary :: "TestResult list \<Rightarrow> Summary" where
  "printSummary results =
     countResults results
       \<lparr>total = int (length results), passed = 0, authFailed = 0, connectFailed = 0,
        responseFailed = 0\<rparr>"

fun hasFailures :: "TestResult list \<Rightarrow> bool" where
  "hasFailures [] = False"
| "hasFailures (result # rest) = (if \<not> Success result then True else hasFailures rest)"

text \<open>
  \<^verbatim>\<open>NewAPIClient\<close>: \<open>http_Client t\<close> stands for \<^verbatim>\<open>&http.Client{Timeout: t}\<close>, the
  transport of the standard library.
\<close>

definition NewAPIClient :: "(int \<Rightarrow> 'w HTTPClient) \<Rightarrow> 'w APIClient" where
  "NewAPIClient http_Client = \<lparr>httpClient = http_Client (30 * Second), timeout = 30 * Second\<rparr>"

text \<open>The loop of \<^verbatim>\<open>main\<close> over \<^verbatim>\<open>cfg.Endpoints\<close>, appending each result to \<open>results\<close>.\<close>

fun testEndpoints ::
  "('w, 'v) Lib \<Rightarrow> 'w TokenProvider \<Rightarrow> 'w APIClient \<Rightarrow> 'v Endpoint list \<Rightarrow> TestResult list \<Rightarrow> 'w
     \<Rightarrow> TestResult list \<times> 'w" where
  "testEndpoints lib tokenProvider apiClient [] results w = (results, w)"
| "testEndpoints lib tokenProvider apiClient (endpoint # rest) results w =
     (case testEndpoint lib endpoint tokenProvider apiClient w of
        (result, w') \<Rightarrow> testEndpoints lib tokenProvider apiClient rest (results @ [result]) w')"

text \<open>
  What a run of \<^verbatim>\<open>main\<close> leaves: the exit status of the process, the results it
  collected, the summary it printed (none when it stopped before), and the world.
  \<^verbatim>\<open>log.Fatalf\<close> prints and calls \<^verbatim>\<open>os.Exit(1)\<close>; returning from \<^verbatim>\<open>main\<close> is exit status 0.
\<close>

record 'w Run =
  exitCode :: int
  outcomes :: "TestResult list"
  summary :: "Summary option"
  world :: 'w

definition main ::
  "('w, 'v) Lib \<Rightarrow> ('w, 'c) Azidentity \<Rightarrow> (int \<Rightarrow> 'w HTTPClient) \<Rightarrow> ('v, 'f) Files \<Rightarrow> string \<Rightarrow> 'w
     \<Rightarrow> 'w Run" where
  "main lib az http_Client fs configPath w =
     (case LoadConfig fs configPath of
        Inl err \<Rightarrow> \<lparr>exitCode = 1, outcomes = [], summary = None, world = w\<rparr>
      | Inr cfg \<Rightarrow>
          (let tokenProvider = GetAccessToken az NewEntraIDTokenProvider;
               apiClient = NewAPIClient http_Client
           in case testEndpoints lib tokenProvider apiClient (Endpoints cfg) [] w of
                (results, w') \<Rightarrow>
                  \<lparr>exitCode = (if hasFailures results then 1 else 0), outcomes = results,
                   summary = Some (printSummary results), world = w'\<rparr>))"

section \<open>Test doubles\<close>

text \<open>
  A concrete world for running the model: a clock that ticks once per external call and
  the list of the requests that reached the network. The stubs below stand for the
  identity provider, the HTTP transport, the JSON encoder and the configuration files.
\<close>

datatype GoValue = GoString string | GoNumber int | GoChan

record World =
  ticks :: nat
  sent :: "Request list"

text \<open>
  The JSON encoder of the stub library. A map is a function here, so the stub looks up
  the keys that the stub configurations use, in the sorted order in which \<^verbatim>\<open>json.Marshal\<close>
  writes the keys of a map; a channel cannot be encoded.
\<close>

definition stub_keys :: "string list" where
  "stub_keys = [''callback'', ''key1'', ''key2'', ''test'']"

fun stub_value :: "GoValue \<Rightarrow> error + string" where
  "stub_value (GoString s) = Inr (''\"'' @ s @ ''\"'')"
| "stub_value (GoNumber n) = Inr (format_d n)"
| "stub_value GoChan = Inl ''json: unsupported type: chan int''"

fun stub_members :: "string list \<Rightarrow> (string \<rightharpoonup> GoValue) \<Rightarrow> error + string list" where
  "stub_members [] m = Inr []"
| "stub_members (k # ks) m =
     (case m k of
        None \<Rightarrow> stub_members ks m
      | Some v \<Rightarrow>
          (case stub_value v of
             Inl err \<Rightarrow> Inl err
           | Inr text \<Rightarrow>
               (case stub_members ks m of
                  Inl err \<Rightarrow> Inl err
                | Inr rest \<Rightarrow> Inr ((''\"'' @ k @ ''\":'' @ text) # rest))))"

fun stub_join :: "string list \<Rightarrow> string" where
  "stub_join [] = ''''"
| "stub_join [x] = x"
| "stub_join (x # y # zs) = x @ '','' @ stub_join (y # zs)"

definition stub_Marshal :: "(string \<rightharpoonup> GoValue) \<Rightarrow> error + string" where
  "stub_Marshal m =
     (case stub_members stub_keys m of
        Inl err \<Rightarrow> Inl err
      | Inr members \<Rightarrow> Inr (''{'' @ stub_join members @ ''}''))"

definition stub_lib :: "(World, GoValue) Lib" where
  "stub_lib = \<lparr>time_Now = (\<lambda>w. int (ticks w) * 1000000), json_Marshal = stub_Marshal,
              http_NewRequest = (\<lambda>method url. None)\<rparr>"

definition stub_az :: "(World, string) Azidentity" where
  "stub_az =
     \<lparr>NewClientSecretCredential = (\<lambda>tenantID clientID clientSecret. Inr clientSecret),
      GetToken = (\<lambda>credential scopes w.
        (if credential = ''expired'' then ('''', Some ''AADSTS7000222: client secret expired'')
         else if credential = ''hollow'' then ('''', None)
         else (''eyJ0eXAi'', None),
         w\<lparr>ticks := Suc (ticks w)\<rparr>))\<rparr>"

definition stub_http :: "int \<Rightarrow> World HTTPClient" where
  "stub_http t req w =
     (if ReqURL req = ''https://down.example.com/''
        then Inl ''dial tcp: connection refused''
      else Inr \<lparr>HttpStatusCode =
                  (if ReqURL req = ''https://api.example.com/missing'' then 404
                   else if ReqMethod req = ''POST'' then 201 else 200),
                HttpHeader = Map.empty, HttpBody = Inr ''ok''\<rparr>,
      w\<lparr>ticks := Suc (ticks w), sent := sent w @ [req]\<rparr>)"

text \<open>A transport whose server answers every request with the status \<open>sc\<close>.\<close>

definition stub_status_http :: "int \<Rightarrow> World HTTPClient" where
  "stub_status_http sc req w =
     (Inr \<lparr>HttpStatusCode = sc, HttpHeader = Map.empty, HttpBody = Inr ''ok''\<rparr>,
      w\<lparr>ticks := Suc (ticks w), sent := sent w @ [req]\<rparr>)"

definition stub_endpoint ::
  "string \<Rightarrow> string \<Rightarrow> string \<Rightarrow> string \<Rightarrow> GoValue RequestBody \<Rightarrow> GoValue Endpoint" where
  "stub_endpoint name method url clientSecret body =
     \<lparr>Name = name, URL = url, Method = method, ClientID = ''id'',
      ClientSecret = clientSecret, TenantID = ''tenant'', Scope = ''api://app/.default'',
      RequestBody = body\<rparr>"

definition stub_files :: "(GoValue, string) Files" where
  "stub_files =
     \<lparr>os_Open = (\<lambda>filePath. if filePath = ''absent.json''
                    then Inl ''open absent.json: no such file or directory'' else Inr filePath),
      json_Decode = (\<lambda>file.
        if file = ''config.json''
          then Inr \<lparr>Endpoints =
                 [stub_endpoint ''missing'' ''GET'' ''https://api.example.com/missing'' ''secret'' None,
                  stub_endpoint ''create'' ''POST'' ''https://api.example.com/users'' ''secret''
                    (Some [''key1'' \<mapsto> GoString ''value1'', ''key2'' \<mapsto> GoNumber 123])]\<rparr>
        else if file = ''ok.json''
          then Inr \<lparr>Endpoints =
                 [stub_endpoint ''users'' ''GET'' ''https://api.example.com/users'' ''secret'' None]\<rparr>
        else Inr \<lparr>Endpoints = []\<rparr>)\<rparr>"



definition w0 :: World where
  "w0 = \<lparr>ticks = 0, sent = []\<rparr>"

lemmas stub_defs = stub_keys_def stub_Marshal_def stub_lib_def stub_az_def stub_http_def stub_endpoint_def
  stub_files_def w0_def

lemmas prog_defs = testEndpoint_def CallAPI_def prepareRequest_def IsSuccessStatusCode_def
  Header_Set_def GetAccessToken_def NewAPIClient_def NewEntraIDTokenProvider_def Second_def
  LoadConfig_def Config_Validate_def Endpoint_Validate_def
  validMethods_def map_index_def main_def printSummary_def format_d_def digit_def

section \<open>Auxiliary facts\<close>

lemma countResults_total: "total (countResults rs s) = total s"
  by (induction rs arbitrary: s) simp_all

lemma countResults_passed:
  "passed (countResults rs s) = passed s + int (length (filter Success rs))"
  by (induction rs arbitrary: s) simp_all

lemma countResults_authFailed:
  "authFailed (countResults rs s)
     = authFailed s + int (length (filter (\<lambda>r. \<not> Success r \<and> \<not> AuthSuccess r) rs))"
  by (induction rs arbitrary: s) simp_all

lemma countResults_connectFailed:
  "connectFailed (countResults rs s)
     = connectFailed s
       + int (length (filter (\<lambda>r. \<not> Success r \<and> AuthSuccess r \<and> \<not> ConnectSuccess r) rs))"
  by (induction rs arbitrary: s) simp_all

lemma countResults_responseFailed:
  "responseFailed (countResults rs s)
     = responseFailed s
       + int (length (filter (\<lambda>r. \<not> Success r \<and> AuthSuccess r \<and> ConnectSuccess r) rs))"
  by (induction rs arbitrary: s) simp_all

lemma bucket_partition:
  "length rs = length (filter Success rs)
     + (length (filter (\<lambda>r. \<not> Success r \<and> \<not> AuthSuccess r) rs)
        + length (filter (\<lambda>r. \<not> Success r \<and> AuthSuccess r \<and> \<not> ConnectSuccess r) rs)
        + length (filter (\<lambda>r. \<not> Success r \<and> AuthSuccess r \<and> ConnectSuccess r) rs))"
  by (induction rs) simp_all

lemma hasFailures_iff: "hasFailures rs \<longleftrightarrow> (\<exists>r\<in>set rs. \<not> Success r)"
  by (induction rs) auto

lemma testEndpoints_acc:
  "testEndpoints lib tp ac eps acc w
     = (acc @ fst (testEndpoints lib tp ac eps [] w), snd (testEndpoints lib tp ac eps [] w))"
proof (induction eps arbitrary: acc w)
  case Nil
  show ?case by simp
next
  case (Cons e es)
  obtain r w' where step: "testEndpoint lib e tp ac w = (r, w')"
    by (cases "testEndpoint lib e tp ac w")
  show ?case
    using Cons.IH [of "acc @ [r]" w'] Cons.IH [of "[r]" w'] by (simp add: step)
qed

lemma testEndpoints_length:
  "length (fst (testEndpoints lib tp ac eps acc w)) = length acc + length eps"
  by (induction eps arbitrary: acc w) (simp_all split: prod.split)

lemma testEndpoints_append:
  "testEndpoints lib tp ac (xs @ ys) acc w
     = testEndpoints lib tp ac ys (fst (testEndpoints lib tp ac xs acc w))
         (snd (testEndpoints lib tp ac xs acc w))"
  by (induction xs arbitrary: acc w) (simp_all split: prod.split)

lemma testEndpoints_world:
  "snd (testEndpoints lib tp ac eps acc w)
     = fold (\<lambda>e w. snd (testEndpoint lib e tp ac w)) eps w"
  by (induction eps arbitrary: acc w) (simp_all split: prod.split)

lemma testEndpoints_nth:
  assumes "i < length eps"
  shows "fst (testEndpoints lib tp ac eps [] w) ! i
           = fst (testEndpoint lib (eps ! i) tp ac
                   (snd (testEndpoints lib tp ac (take i eps) [] w)))"
proof -
  let ?pre = "testEndpoints lib tp ac (take i eps) [] w"
  obtain r w' where step: "testEndpoint lib (eps ! i) tp ac (snd ?pre) = (r, w')"
    by (cases "testEndpoint lib (eps ! i) tp ac (snd ?pre)")
  have len: "length (fst ?pre) = i"
    using assms by (simp add: testEndpoints_length)
  have "eps = take i eps @ eps ! i # drop (Suc i) eps"
    using assms by (simp add: id_take_nth_drop)
  then have "testEndpoints lib tp ac eps [] w
      = testEndpoints lib tp ac (eps ! i # drop (Suc i) eps) (fst ?pre) (snd ?pre)"
    by (metis testEndpoints_append)
  also have "\<dots> = testEndpoints lib tp ac (drop (Suc i) eps) (fst ?pre @ [r]) w'"
    by (simp add: step)
  finally have "fst (testEndpoints lib tp ac eps [] w)
      = (fst ?pre @ [r]) @ fst (testEndpoints lib tp ac (drop (Suc i) eps) [] w')"
    by (metis testEndpoints_acc fst_conv)
  then show ?thesis
    using len by (simp add: step nth_append)
qed

lemma testEndpoint_EndpointName:
  "EndpointName (fst (testEndpoint lib ep tp ac w)) = Name ep"
  by (simp add: testEndpoint_def Let_def split: prod.split option.split sum.split)

lemma testEndpoints_names:
  "map EndpointName (fst (testEndpoints lib tp ac eps acc w))
     = map EndpointName acc @ map Name eps"
proof (induction eps arbitrary: acc w)
  case Nil
  show ?case by simp
next
  case (Cons e es)
  obtain r w' where step: "testEndpoint lib e tp ac w = (r, w')"
    by (cases "testEndpoint lib e tp ac w")
  have "EndpointName r = Name e"
    using testEndpoint_EndpointName [of lib e tp ac w] by (simp add: step)
  then show ?case
    using Cons.IH [of "acc @ [r]" w'] by (simp add: step)
qed

lemma LoadConfig_Inr:
  "LoadConfig fs path = Inr cfg \<Longrightarrow> Config_Validate cfg = None"
  by (auto simp: LoadConfig_def split: sum.splits option.splits)

lemma testEndpoint_auth_error:
  assumes "tp (ClientID ep) (ClientSecret ep) (TenantID ep) (Scope ep) w = ((token, Some err), w1)"
  shows "testEndpoint lib ep tp ac w
           = (\<lparr>EndpointName = Name ep, ErrorMessage = ''Authentication failed: '' @ err,
               Duration = time_Now lib w1 - time_Now lib w, StatusCode = 0, Success = False,
               AuthSuccess = False, ConnectSuccess = False, ResponseSuccess = False\<rparr>, w1)"
  using assms by (simp add: testEndpoint_def)

lemma testEndpoint_AuthSuccess:
  "AuthSuccess (fst (testEndpoint lib ep tp ac w))
     \<longleftrightarrow> snd (fst (tp (ClientID ep) (ClientSecret ep) (TenantID ep) (Scope ep) w)) = None"
  by (simp add: testEndpoint_def Let_def split: prod.split option.split sum.split)

lemma GetAccessToken_no_error:
  "snd (fst (GetAccessToken az p clientID clientSecret tenantID scope w)) = None
     \<longleftrightarrow> (\<exists>credential. NewClientSecretCredential az tenantID clientID clientSecret = Inr credential
           \<and> snd (fst (GetToken az credential [scope] w)) = None
           \<and> fst (fst (GetToken az credential [scope] w)) \<noteq> '''')"
  by (auto simp: GetAccessToken_def split: sum.splits prod.splits option.splits)

lemma GetAccessToken_empty:
  assumes "NewClientSecretCredential az tenantID clientID clientSecret = Inr credential"
    and "GetToken az credential [scope] w = (('''', None), w1)"
  shows "GetAccessToken az p clientID clientSecret tenantID scope w
           = (('''', Some ''received empty token''), w1)"
  using assms by (simp add: GetAccessToken_def)






section \<open>The claims\<close>

text \<open>
  C1. Whatever the token provider and the HTTP client return, the three stage flags of
  the result of \<^verbatim>\<open>testEndpoint\<close> form a prefix: \<open>ConnectSuccess\<close> only with
  \<open>AuthSuccess\<close>, and \<open>ResponseSuccess\<close> only with \<open>ConnectSuccess\<close>.
\<close>

theorem prefix_invariant:
  "(ConnectSuccess (fst (testEndpoint lib ep tp ac w))
      \<longrightarrow> AuthSuccess (fst (testEndpoint lib ep tp ac w)))
   \<and> (ResponseSuccess (fst (testEndpoint lib ep tp ac w))
      \<longrightarrow> ConnectSuccess (fst (testEndpoint lib ep tp ac w)))"
  by (simp add: testEndpoint_def Let_def split: prod.split option.split sum.split)

theorem prefix_invariant_witness:
  "ResponseSuccess (fst (testEndpoint stub_lib
       (stub_endpoint ''users'' ''GET'' ''https://api.example.com/users'' ''secret'' None)
       (GetAccessToken stub_az NewEntraIDTokenProvider) (NewAPIClient stub_http) w0))
   \<and> ConnectSuccess (fst (testEndpoint stub_lib
       (stub_endpoint ''users'' ''GET'' ''https://api.example.com/users'' ''secret'' None)
       (GetAccessToken stub_az NewEntraIDTokenProvider) (NewAPIClient stub_http) w0))
   \<and> AuthSuccess (fst (testEndpoint stub_lib
       (stub_endpoint ''users'' ''GET'' ''https://api.example.com/users'' ''secret'' None)
       (GetAccessToken stub_az NewEntraIDTokenProvider) (NewAPIClient stub_http) w0))"
  using prefix_invariant [of stub_lib
       "stub_endpoint ''users'' ''GET'' ''https://api.example.com/users'' ''secret'' None"
       "GetAccessToken stub_az NewEntraIDTokenProvider" "NewAPIClient stub_http" w0]
  by (simp add: stub_defs prog_defs)

text \<open>
  C2. For every list of results, \<^verbatim>\<open>printSummary\<close> counts in \<open>passed\<close> the results with
  \<open>Success\<close>, and every other result in exactly one bucket, by the earliest stage that
  failed: \<open>authFailed\<close> when \<open>AuthSuccess\<close> is false, otherwise \<open>connectFailed\<close> when
  \<open>ConnectSuccess\<close> is false, otherwise \<open>responseFailed\<close>. So \<open>total\<close> is \<open>passed\<close> plus
  the three buckets.
\<close>

theorem summary_counts:
  "total (printSummary rs) = int (length rs)
   \<and> passed (printSummary rs) = int (length (filter Success rs))
   \<and> authFailed (printSummary rs)
       = int (length (filter (\<lambda>r. \<not> Success r \<and> \<not> AuthSuccess r) rs))
   \<and> connectFailed (printSummary rs)
       = int (length (filter (\<lambda>r. \<not> Success r \<and> AuthSuccess r \<and> \<not> ConnectSuccess r) rs))
   \<and> responseFailed (printSummary rs)
       = int (length (filter (\<lambda>r. \<not> Success r \<and> AuthSuccess r \<and> ConnectSuccess r) rs))
   \<and> total (printSummary rs)
       = passed (printSummary rs)
         + (authFailed (printSummary rs) + connectFailed (printSummary rs)
            + responseFailed (printSummary rs))"
proof -
  have t: "total (printSummary rs) = int (length rs)"
    by (simp add: printSummary_def countResults_total)
  have p: "passed (printSummary rs) = int (length (filter Success rs))"
    by (simp add: printSummary_def countResults_passed)
  have a: "authFailed (printSummary rs)
       = int (length (filter (\<lambda>r. \<not> Success r \<and> \<not> AuthSuccess r) rs))"
    by (simp add: printSummary_def countResults_authFailed)
  have c: "connectFailed (printSummary rs)
       = int (length (filter (\<lambda>r. \<not> Success r \<and> AuthSuccess r \<and> \<not> ConnectSuccess r) rs))"
    by (simp add: printSummary_def countResults_connectFailed)
  have r: "responseFailed (printSummary rs)
       = int (length (filter (\<lambda>r. \<not> Success r \<and> AuthSuccess r \<and> ConnectSuccess r) rs))"
    by (simp add: printSummary_def countResults_responseFailed)
  have "int (length rs) = int (length (filter Success rs))
     + (int (length (filter (\<lambda>r. \<not> Success r \<and> \<not> AuthSuccess r) rs))
        + int (length (filter (\<lambda>r. \<not> Success r \<and> AuthSuccess r \<and> \<not> ConnectSuccess r) rs))
        + int (length (filter (\<lambda>r. \<not> Success r \<and> AuthSuccess r \<and> ConnectSuccess r) rs)))"
    using bucket_partition [of rs] by linarith
  with t p a c r show ?thesis by simp
qed

theorem summary_counts_witness:
  "printSummary
     [\<lparr>EndpointName = ''a'', ErrorMessage = '''', Duration = 5, StatusCode = 200, Success = True,
       AuthSuccess = True, ConnectSuccess = True, ResponseSuccess = True\<rparr>,
      \<lparr>EndpointName = ''b'', ErrorMessage = ''Unexpected status code: 404'', Duration = 5,
       StatusCode = 404, Success = False, AuthSuccess = True, ConnectSuccess = True,
       ResponseSuccess = False\<rparr>,
      \<lparr>EndpointName = ''c'', ErrorMessage = ''Authentication failed: denied'', Duration = 5,
       StatusCode = 0, Success = False, AuthSuccess = False, ConnectSuccess = False,
       ResponseSuccess = False\<rparr>,
      \<lparr>EndpointName = ''d'', ErrorMessage = ''Request failed: refused'', Duration = 5,
       StatusCode = 0, Success = False, AuthSuccess = True, ConnectSuccess = False,
       ResponseSuccess = False\<rparr>]
     = \<lparr>total = 4, passed = 1, authFailed = 1, connectFailed = 1, responseFailed = 1\<rparr>"
  using summary_counts [of
     "[\<lparr>EndpointName = ''a'', ErrorMessage = '''', Duration = 5, StatusCode = 200, Success = True,
       AuthSuccess = True, ConnectSuccess = True, ResponseSuccess = True\<rparr>,
      \<lparr>EndpointName = ''b'', ErrorMessage = ''Unexpected status code: 404'', Duration = 5,
       StatusCode = 404, Success = False, AuthSuccess = True, ConnectSuccess = True,
       ResponseSuccess = False\<rparr>,
      \<lparr>EndpointName = ''c'', ErrorMessage = ''Authentication failed: denied'', Duration = 5,
       StatusCode = 0, Success = False, AuthSuccess = False, ConnectSuccess = False,
       ResponseSuccess = False\<rparr>,
      \<lparr>EndpointName = ''d'', ErrorMessage = ''Request failed: refused'', Duration = 5,
       StatusCode = 0, Success = False, AuthSuccess = True, ConnectSuccess = False,
       ResponseSuccess = False\<rparr>]"]
  by (simp add: printSummary_def)

text \<open>
  C3. For a configuration that \<^verbatim>\<open>LoadConfig\<close> accepted, with \<open>N\<close> endpoints, \<^verbatim>\<open>main\<close>
  collects exactly \<open>N\<close> results, and the \<open>i\<close>-th result is what \<^verbatim>\<open>testEndpoint\<close> returns
  for the \<open>i\<close>-th endpoint in the world that testing the first \<open>i\<close> endpoints has left;
  the results carry the names of the endpoints, in the order of the configuration.
  The world at the end is the one reached by calling \<^verbatim>\<open>testEndpoint\<close> once per endpoint,
  in the order of the configuration. Nothing here depends on whether a result is a success:
  a failed endpoint does not keep a later one from being tested.
\<close>

theorem fail_continue:
  assumes "LoadConfig fs path = Inr cfg"
  shows "let tp = GetAccessToken az NewEntraIDTokenProvider;
             ac = NewAPIClient http_Client;
             run = main lib az http_Client fs path w
         in length (outcomes run) = length (Endpoints cfg)
            \<and> (\<forall>i < length (Endpoints cfg).
                  outcomes run ! i
                    = fst (testEndpoint lib (Endpoints cfg ! i) tp ac
                            (snd (testEndpoints lib tp ac (take i (Endpoints cfg)) [] w))))
            \<and> map EndpointName (outcomes run) = map Name (Endpoints cfg)
            \<and> world run = fold (\<lambda>e w. snd (testEndpoint lib e tp ac w)) (Endpoints cfg) w"
proof -
  let ?tp = "GetAccessToken az NewEntraIDTokenProvider"
  let ?ac = "NewAPIClient http_Client"
  let ?all = "testEndpoints lib ?tp ?ac (Endpoints cfg) [] w"
  have out: "outcomes (main lib az http_Client fs path w) = fst ?all"
    using assms by (simp add: main_def split: prod.split)
  have wld: "world (main lib az http_Client fs path w) = snd ?all"
    using assms by (simp add: main_def split: prod.split)
  have len: "length (fst ?all) = length (Endpoints cfg)"
    by (simp add: testEndpoints_length)
  have nth: "\<forall>i < length (Endpoints cfg).
      fst ?all ! i = fst (testEndpoint lib (Endpoints cfg ! i) ?tp ?ac
                            (snd (testEndpoints lib ?tp ?ac (take i (Endpoints cfg)) [] w)))"
    by (simp add: testEndpoints_nth)
  have fld: "snd ?all = fold (\<lambda>e w. snd (testEndpoint lib e ?tp ?ac w)) (Endpoints cfg) w"
    by (rule testEndpoints_world)
  have nms: "map EndpointName (fst ?all) = map Name (Endpoints cfg)"
    by (simp add: testEndpoints_names)
  show ?thesis
    unfolding Let_def out wld using len nth nms fld by simp
qed

theorem fail_continue_witness:
  "LoadConfig stub_files ''config.json''
     = Inr \<lparr>Endpoints =
         [stub_endpoint ''missing'' ''GET'' ''https://api.example.com/missing'' ''secret'' None,
          stub_endpoint ''create'' ''POST'' ''https://api.example.com/users'' ''secret''
            (Some [''key1'' \<mapsto> GoString ''value1'', ''key2'' \<mapsto> GoNumber 123])]\<rparr>
   \<and> length (outcomes (main stub_lib stub_az stub_http stub_files ''config.json'' w0)) = 2
   \<and> map EndpointName (outcomes (main stub_lib stub_az stub_http stub_files ''config.json'' w0))
       = [''missing'', ''create'']
   \<and> map Success (outcomes (main stub_lib stub_az stub_http stub_files ''config.json'' w0))
       = [False, True]
   \<and> map ReqURL (sent (world (main stub_lib stub_az stub_http stub_files ''config.json'' w0)))
       = [''https://api.example.com/missing'', ''https://api.example.com/users'']"
proof -
  let ?cfg = "\<lparr>Endpoints =
         [stub_endpoint ''missing'' ''GET'' ''https://api.example.com/missing'' ''secret'' None,
          stub_endpoint ''create'' ''POST'' ''https://api.example.com/users'' ''secret''
            (Some [''key1'' \<mapsto> GoString ''value1'', ''key2'' \<mapsto> GoNumber 123])]\<rparr>"
  have h: "LoadConfig stub_files ''config.json'' = Inr ?cfg"
    by (simp add: stub_defs prog_defs)
  have e: "map EndpointName (outcomes (main stub_lib stub_az stub_http stub_files ''config.json'' w0))
       = [''missing'', ''create'']
     \<and> map Success (outcomes (main stub_lib stub_az stub_http stub_files ''config.json'' w0))
       = [False, True]
     \<and> map ReqURL (sent (world (main stub_lib stub_az stub_http stub_files ''config.json'' w0)))
       = [''https://api.example.com/missing'', ''https://api.example.com/users'']"
    by (simp add: stub_defs prog_defs)
  show ?thesis
    using h e fail_continue [OF h, of stub_az stub_http stub_lib w0]
    by (simp add: Let_def)
qed

text \<open>
  C4. For every result of \<^verbatim>\<open>testEndpoint\<close> whose HTTP exchange completed
  (\<open>ConnectSuccess\<close>), \<open>ResponseSuccess\<close> holds exactly when
  \<open>200 \<le> StatusCode < 300\<close>. At the edges, \<^verbatim>\<open>IsSuccessStatusCode\<close> rejects 199 and 300
  and accepts 200 and 299.
\<close>

theorem status_boundary:
  "(ConnectSuccess (fst (testEndpoint lib ep tp ac w))
      \<longrightarrow> (ResponseSuccess (fst (testEndpoint lib ep tp ac w))
             \<longleftrightarrow> 200 \<le> StatusCode (fst (testEndpoint lib ep tp ac w))
                 \<and> StatusCode (fst (testEndpoint lib ep tp ac w)) < 300))
   \<and> \<not> IsSuccessStatusCode (r\<lparr>RespStatusCode := 199\<rparr>)
   \<and> IsSuccessStatusCode (r\<lparr>RespStatusCode := 200\<rparr>)
   \<and> IsSuccessStatusCode (r\<lparr>RespStatusCode := 299\<rparr>)
   \<and> \<not> IsSuccessStatusCode (r\<lparr>RespStatusCode := 300\<rparr>)"
  by (simp add: testEndpoint_def IsSuccessStatusCode_def Let_def
           split: prod.split option.split sum.split)

theorem status_boundary_witness:
  "map (\<lambda>sc. ConnectSuccess (fst (testEndpoint stub_lib
          (stub_endpoint ''users'' ''GET'' ''https://api.example.com/users'' ''secret'' None)
          (GetAccessToken stub_az NewEntraIDTokenProvider)
          \<lparr>httpClient = stub_status_http sc, timeout = 30 * Second\<rparr> w0)))
       [199, 200, 299, 300] = [True, True, True, True]
   \<and> map (\<lambda>sc. ResponseSuccess (fst (testEndpoint stub_lib
          (stub_endpoint ''users'' ''GET'' ''https://api.example.com/users'' ''secret'' None)
          (GetAccessToken stub_az NewEntraIDTokenProvider)
          \<lparr>httpClient = stub_status_http sc, timeout = 30 * Second\<rparr> w0)))
       [199, 200, 299, 300] = [False, True, True, False]"
  using status_boundary [of stub_lib
          "stub_endpoint ''users'' ''GET'' ''https://api.example.com/users'' ''secret'' None"
          "GetAccessToken stub_az NewEntraIDTokenProvider"
          "\<lparr>httpClient = stub_status_http 299, timeout = 30 * Second\<rparr>" w0]
  by (simp add: stub_defs stub_status_http_def prog_defs)

text \<open>
  C5. \<^verbatim>\<open>testEndpoint\<close> stops at the first stage exactly when the token
  provider returns an error: then \<open>AuthSuccess\<close> is false and \<open>ErrorMessage\<close> is
  \<^verbatim>\<open>Authentication failed: \<close> followed by the error; \<^verbatim>\<open>testEndpoint\<close> does not look at the
  token itself, so \<open>AuthSuccess\<close> holds exactly when the provider returned no error. The
  empty token is refused one level below: when the identity SDK hands
  \<^verbatim>\<open>EntraIDTokenProvider.GetAccessToken\<close> an empty token and no error, that provider returns the
  error \<^verbatim>\<open>received empty token\<close>, so with that provider the endpoint fails at the first
  stage, and \<open>AuthSuccess\<close> holds exactly when a non-empty token was obtained.
\<close>

theorem auth_failure_on_provider_error:
  "(\<forall>token err w1.
      tp (ClientID ep) (ClientSecret ep) (TenantID ep) (Scope ep) w = ((token, Some err), w1)
      \<longrightarrow> testEndpoint lib ep tp ac w
            = (\<lparr>EndpointName = Name ep, ErrorMessage = ''Authentication failed: '' @ err,
                Duration = time_Now lib w1 - time_Now lib w, StatusCode = 0, Success = False,
                AuthSuccess = False, ConnectSuccess = False, ResponseSuccess = False\<rparr>, w1))
   \<and> (AuthSuccess (fst (testEndpoint lib ep tp ac w))
        \<longleftrightarrow> snd (fst (tp (ClientID ep) (ClientSecret ep) (TenantID ep) (Scope ep) w)) = None)
   \<and> (\<forall>credential w1.
        NewClientSecretCredential az (TenantID ep) (ClientID ep) (ClientSecret ep) = Inr credential
        \<and> GetToken az credential [Scope ep] w = (('''', None), w1)
        \<longrightarrow> testEndpoint lib ep (GetAccessToken az p) ac w
              = (\<lparr>EndpointName = Name ep,
                  ErrorMessage = ''Authentication failed: received empty token'',
                  Duration = time_Now lib w1 - time_Now lib w, StatusCode = 0, Success = False,
                  AuthSuccess = False, ConnectSuccess = False, ResponseSuccess = False\<rparr>, w1))
   \<and> (AuthSuccess (fst (testEndpoint lib ep (GetAccessToken az p) ac w))
        \<longleftrightarrow> (\<exists>credential.
               NewClientSecretCredential az (TenantID ep) (ClientID ep) (ClientSecret ep)
                 = Inr credential
               \<and> snd (fst (GetToken az credential [Scope ep] w)) = None
               \<and> fst (fst (GetToken az credential [Scope ep] w)) \<noteq> ''''))"
proof -
  have empty: "testEndpoint lib ep (GetAccessToken az p) ac w
              = (\<lparr>EndpointName = Name ep,
                  ErrorMessage = ''Authentication failed: received empty token'',
                  Duration = time_Now lib w1 - time_Now lib w, StatusCode = 0, Success = False,
                  AuthSuccess = False, ConnectSuccess = False, ResponseSuccess = False\<rparr>, w1)"
    if "NewClientSecretCredential az (TenantID ep) (ClientID ep) (ClientSecret ep) = Inr credential"
      and "GetToken az credential [Scope ep] w = (('''', None), w1)"
    for credential w1
    using testEndpoint_auth_error [where tp = "GetAccessToken az p" and ep = ep and w = w
        and lib = lib and ac = ac, OF GetAccessToken_empty [OF that, of p]]
    by simp
  show ?thesis
    using empty
    by (simp add: testEndpoint_auth_error testEndpoint_AuthSuccess GetAccessToken_no_error)
qed

theorem auth_failure_on_provider_error_witness:
  "testEndpoint stub_lib
       (stub_endpoint ''users'' ''GET'' ''https://api.example.com/users'' ''secret'' None)
       (Mock_GetAccessToken \<lparr>TokenToReturn = '''', ErrorToReturn = Some ''invalid_client''\<rparr>)
       (NewAPIClient stub_http) w0
     = (\<lparr>EndpointName = ''users'', ErrorMessage = ''Authentication failed: invalid_client'',
         Duration = 0, StatusCode = 0, Success = False, AuthSuccess = False,
         ConnectSuccess = False, ResponseSuccess = False\<rparr>, w0)
   \<and> GetToken stub_az ''hollow'' [''api://app/.default''] w0 = (('''', None), w0\<lparr>ticks := 1\<rparr>)
   \<and> testEndpoint stub_lib
       (stub_endpoint ''users'' ''GET'' ''https://api.example.com/users'' ''hollow'' None)
       (GetAccessToken stub_az NewEntraIDTokenProvider) (NewAPIClient stub_http) w0
     = (\<lparr>EndpointName = ''users'', ErrorMessage = ''Authentication failed: received empty token'',
         Duration = 1000000, StatusCode = 0, Success = False, AuthSuccess = False,
         ConnectSuccess = False, ResponseSuccess = False\<rparr>, w0\<lparr>ticks := 1\<rparr>)
   \<and> AuthSuccess (fst (testEndpoint stub_lib
       (stub_endpoint ''users'' ''GET'' ''https://api.example.com/users'' ''secret'' None)
       (GetAccessToken stub_az NewEntraIDTokenProvider) (NewAPIClient stub_http) w0))"
proof -
  let ?ep = "stub_endpoint ''users'' ''GET'' ''https://api.example.com/users'' ''secret'' None"
  let ?hollow = "stub_endpoint ''users'' ''GET'' ''https://api.example.com/users'' ''hollow'' None"
  let ?mock = "Mock_GetAccessToken \<lparr>TokenToReturn = '''', ErrorToReturn = Some ''invalid_client''\<rparr>
                 :: World TokenProvider"
  have m: "?mock (ClientID ?ep) (ClientSecret ?ep) (TenantID ?ep) (Scope ?ep) w0
             = (('''', Some ''invalid_client''), w0)"
    by (simp add: Mock_GetAccessToken_def)
  have c: "NewClientSecretCredential stub_az (TenantID ?hollow) (ClientID ?hollow)
             (ClientSecret ?hollow) = Inr ''hollow''"
    by (simp add: stub_defs)
  have g: "GetToken stub_az ''hollow'' [Scope ?hollow] w0 = (('''', None), w0\<lparr>ticks := 1\<rparr>)"
    by (simp add: stub_defs)
  have a: "AuthSuccess (fst (testEndpoint stub_lib ?ep
       (GetAccessToken stub_az NewEntraIDTokenProvider) (NewAPIClient stub_http) w0))"
    by (simp add: stub_defs prog_defs)
  show ?thesis
    using m c g a
      auth_failure_on_provider_error [where tp = ?mock and ep = ?ep and lib = stub_lib
        and w = w0 and ac = "NewAPIClient stub_http" and az = stub_az
        and p = NewEntraIDTokenProvider]
      auth_failure_on_provider_error [where tp = ?mock and ep = ?hollow and lib = stub_lib
        and w = w0 and ac = "NewAPIClient stub_http" and az = stub_az
        and p = NewEntraIDTokenProvider]
    by (simp add: stub_defs)
qed

text \<open>
  C5 does not hold of \<^verbatim>\<open>testEndpoint\<close> alone: for a provider that returns the empty token
  and no error, as \<^verbatim>\<open>MockTokenProvider\<close> with its zero value does, the test goes on to
  the request and passes.
\<close>

theorem empty_token_counterexample:
  "Mock_GetAccessToken \<lparr>TokenToReturn = '''', ErrorToReturn = None\<rparr>
       ''id'' ''secret'' ''tenant'' ''api://app/.default'' w0 = (('''', None), w0)
   \<and> fst (testEndpoint stub_lib
       (stub_endpoint ''users'' ''GET'' ''https://api.example.com/users'' ''secret'' None)
       (Mock_GetAccessToken \<lparr>TokenToReturn = '''', ErrorToReturn = None\<rparr>)
       (NewAPIClient stub_http) w0)
     = \<lparr>EndpointName = ''users'', ErrorMessage = '''', Duration = 1000000, StatusCode = 200,
        Success = True, AuthSuccess = True, ConnectSuccess = True, ResponseSuccess = True\<rparr>
   \<and> map ReqURL (sent (snd (testEndpoint stub_lib
       (stub_endpoint ''users'' ''GET'' ''https://api.example.com/users'' ''secret'' None)
       (Mock_GetAccessToken \<lparr>TokenToReturn = '''', ErrorToReturn = None\<rparr>)
       (NewAPIClient stub_http) w0)))
     = [''https://api.example.com/users'']"
  by (simp add: stub_defs prog_defs Mock_GetAccessToken_def)

text \<open>
  C6. Every request of \<^verbatim>\<open>CallAPI\<close> carries \<^verbatim>\<open>Authorization: Bearer <token>\<close>, and
  \<^verbatim>\<open>Content-Type: application/json\<close> is documented for POST, PUT and PATCH, the requests
  that carry a body. The code does not keep the second part: on a GET with a non-nil
  \<^verbatim>\<open>requestBody\<close> it sends no body and still sets the header, since the header is guarded
  by \<^verbatim>\<open>requestBody != nil\<close> alone, the body by that and the method. The theorem
  evaluates this call.
\<close>

theorem content_type_without_body:
  "prepareRequest stub_lib ''GET'' ''https://api.example.com/users'' ''eyJ0eXAi''
       (Some [''key1'' \<mapsto> GoString ''value1''])
     = Inr \<lparr>ReqMethod = ''GET'', ReqURL = ''https://api.example.com/users'', ReqBody = None,
            ReqHeader = [''Authorization'' \<mapsto> [''Bearer eyJ0eXAi''],
                         ''Content-Type'' \<mapsto> [''application/json'']]\<rparr>
   \<and> map (\<lambda>req. (ReqMethod req, ReqBody req, ReqHeader req ''Content-Type''))
         (sent (snd (CallAPI stub_lib (NewAPIClient stub_http) ''GET''
            ''https://api.example.com/users'' ''eyJ0eXAi''
            (Some [''key1'' \<mapsto> GoString ''value1'']) w0)))
       = [(''GET'', None, Some [''application/json''])]"
  by (simp add: stub_defs prog_defs)



text \<open>
  C8. For a POST, PUT or PATCH endpoint whose non-nil \<^verbatim>\<open>requestBody\<close> fails
  \<^verbatim>\<open>json.Marshal\<close>, once the token has been acquired, \<^verbatim>\<open>testEndpoint\<close> returns a
  connect-stage failure: \<open>AuthSuccess\<close> true, \<open>ConnectSuccess\<close> false, \<open>StatusCode\<close> 0,
  and \<open>ErrorMessage\<close> \<^verbatim>\<open>Request failed: failed to marshal request body: \<close> followed by
  the cause. The world is the one the token acquisition left, whatever the HTTP client
  is: no request was attempted.
\<close>

theorem marshal_failure:
  assumes "Method ep = ''POST'' \<or> Method ep = ''PUT'' \<or> Method ep = ''PATCH''"
    and "RequestBody ep = Some b"
    and "json_Marshal lib b = Inl cause"
    and "tp (ClientID ep) (ClientSecret ep) (TenantID ep) (Scope ep) w = ((token, None), w1)"
  shows "testEndpoint lib ep tp ac w
           = (\<lparr>EndpointName = Name ep,
               ErrorMessage = ''Request failed: failed to marshal request body: '' @ cause,
               Duration = time_Now lib w1 - time_Now lib w, StatusCode = 0, Success = False,
               AuthSuccess = True, ConnectSuccess = False, ResponseSuccess = False\<rparr>, w1)"
proof -
  have "prepareRequest lib (Method ep) (URL ep) token (RequestBody ep)
          = Inl (''failed to marshal request body: '' @ cause)"
    using assms(1-3) by (auto simp: prepareRequest_def)
  then have "CallAPI lib ac (Method ep) (URL ep) token (RequestBody ep) w1
          = (Inl (''failed to marshal request body: '' @ cause), w1)"
    by (simp add: CallAPI_def)
  then show ?thesis
    using assms(4) by (simp add: testEndpoint_def)
qed

theorem marshal_failure_witness:
  "json_Marshal stub_lib [''callback'' \<mapsto> GoChan] = Inl ''json: unsupported type: chan int''
   \<and> GetAccessToken stub_az NewEntraIDTokenProvider ''id'' ''secret'' ''tenant''
         ''api://app/.default'' w0 = ((''eyJ0eXAi'', None), w0\<lparr>ticks := 1\<rparr>)
   \<and> testEndpoint stub_lib
         (stub_endpoint ''create'' ''POST'' ''https://api.example.com/users'' ''secret''
            (Some [''callback'' \<mapsto> GoChan]))
         (GetAccessToken stub_az NewEntraIDTokenProvider) (NewAPIClient stub_http) w0
       = (\<lparr>EndpointName = ''create'',
           ErrorMessage =
             ''Request failed: failed to marshal request body: json: unsupported type: chan int'',
           Duration = 1000000, StatusCode = 0, Success = False, AuthSuccess = True,
           ConnectSuccess = False, ResponseSuccess = False\<rparr>,
          \<lparr>ticks = 1, sent = []\<rparr>)"
proof -
  let ?ep = "stub_endpoint ''create'' ''POST'' ''https://api.example.com/users'' ''secret''
               (Some [''callback'' \<mapsto> GoChan])"
  let ?tp = "GetAccessToken stub_az NewEntraIDTokenProvider :: World TokenProvider"
  have m: "Method ?ep = ''POST'' \<or> Method ?ep = ''PUT'' \<or> Method ?ep = ''PATCH''"
    by (simp add: stub_defs)
  have b: "RequestBody ?ep = Some [''callback'' \<mapsto> GoChan]"
    by (simp add: stub_defs)
  have j: "json_Marshal stub_lib [''callback'' \<mapsto> GoChan]
             = Inl ''json: unsupported type: chan int''"
    by (simp add: stub_defs)
  have t: "?tp (ClientID ?ep) (ClientSecret ?ep) (TenantID ?ep) (Scope ?ep) w0
             = ((''eyJ0eXAi'', None), w0\<lparr>ticks := 1\<rparr>)"
    by (simp add: stub_defs prog_defs)
  show ?thesis
    using j t marshal_failure [where ep = ?ep and tp = ?tp and lib = stub_lib and w = w0
        and ac = "NewAPIClient stub_http", OF m b j t]
    by (simp add: stub_defs)
qed

text \<open>
  C9. The exit status of \<^verbatim>\<open>main\<close> is 1 when \<^verbatim>\<open>LoadConfig\<close> fails, and then no endpoint
  has been tested (no result, the world untouched); otherwise it is 0 when every result
  has \<open>Success\<close> and 1 when some result has not.
\<close>

theorem exit_status:
  "exitCode (main lib az http_Client fs path w)
     = (case LoadConfig fs path of
          Inl err \<Rightarrow> 1
        | Inr cfg \<Rightarrow>
            if \<forall>r \<in> set (outcomes (main lib az http_Client fs path w)). Success r then 0 else 1)
   \<and> (\<forall>err. LoadConfig fs path = Inl err
         \<longrightarrow> outcomes (main lib az http_Client fs path w) = []
             \<and> world (main lib az http_Client fs path w) = w)"
  by (auto simp: main_def hasFailures_iff split: sum.split prod.split)

theorem exit_status_witness:
  "exitCode (main stub_lib stub_az stub_http stub_files ''ok.json'' w0) = 0
   \<and> exitCode (main stub_lib stub_az stub_http stub_files ''config.json'' w0) = 1
   \<and> exitCode (main stub_lib stub_az stub_http stub_files ''absent.json'' w0) = 1
   \<and> outcomes (main stub_lib stub_az stub_http stub_files ''absent.json'' w0) = []
   \<and> world (main stub_lib stub_az stub_http stub_files ''absent.json'' w0) = w0
   \<and> exitCode (main stub_lib stub_az stub_http stub_files ''empty.json'' w0) = 1
   \<and> world (main stub_lib stub_az stub_http stub_files ''empty.json'' w0) = w0"
proof -
  have ok: "LoadConfig stub_files ''ok.json''
      = Inr \<lparr>Endpoints =
          [stub_endpoint ''users'' ''GET'' ''https://api.example.com/users'' ''secret'' None]\<rparr>"
    by (simp add: stub_defs prog_defs)
  have ok_all: "\<forall>r \<in> set (outcomes (main stub_lib stub_az stub_http stub_files ''ok.json'' w0)).
      Success r"
    by (simp add: stub_defs prog_defs)
  have absent: "LoadConfig stub_files ''absent.json''
      = Inl ''failed to open config file: open absent.json: no such file or directory''"
    by (simp add: stub_defs prog_defs)
  have empty: "LoadConfig stub_files ''empty.json''
      = Inl ''invalid configuration: no endpoints defined in configuration''"
    by (simp add: stub_defs prog_defs)
  have cfg: "exitCode (main stub_lib stub_az stub_http stub_files ''config.json'' w0) = 1"
    by (simp add: stub_defs prog_defs)
  show ?thesis
    using ok_all cfg
      exit_status [of stub_lib stub_az stub_http stub_files "''ok.json''" w0]
      exit_status [of stub_lib stub_az stub_http stub_files "''absent.json''" w0]
      exit_status [of stub_lib stub_az stub_http stub_files "''empty.json''" w0]
    by (simp add: ok absent empty)
qed

text \<open>
  C10. When \<^verbatim>\<open>LoadConfig\<close> has accepted the configuration, \<^verbatim>\<open>main\<close> prints the summary
  of its results, and \<open>total\<close>, the divisor of the two percentages of \<^verbatim>\<open>printSummary\<close>, is
  the number of endpoints and is not zero.
\<close>

theorem summary_divisor_nonzero:
  assumes "LoadConfig fs path = Inr cfg"
  shows "summary (main lib az http_Client fs path w)
           = Some (printSummary (outcomes (main lib az http_Client fs path w)))
         \<and> total (printSummary (outcomes (main lib az http_Client fs path w)))
           = int (length (Endpoints cfg))
         \<and> total (printSummary (outcomes (main lib az http_Client fs path w))) \<noteq> 0"
proof -
  have "Config_Validate cfg = None"
    using assms by (rule LoadConfig_Inr)
  then have ne: "length (Endpoints cfg) \<noteq> 0"
    by (auto simp: Config_Validate_def split: if_splits)
  have out: "outcomes (main lib az http_Client fs path w)
      = fst (testEndpoints lib (GetAccessToken az NewEntraIDTokenProvider)
               (NewAPIClient http_Client) (Endpoints cfg) [] w)"
    using assms by (simp add: main_def split: prod.split)
  have sm: "summary (main lib az http_Client fs path w)
           = Some (printSummary (outcomes (main lib az http_Client fs path w)))"
    using assms by (simp add: main_def split: prod.split)
  have "total (printSummary (outcomes (main lib az http_Client fs path w)))
           = int (length (Endpoints cfg))"
    by (simp add: out printSummary_def countResults_total testEndpoints_length)
  with sm ne show ?thesis by simp
qed

theorem summary_divisor_nonzero_witness:
  "LoadConfig stub_files ''ok.json''
      = Inr \<lparr>Endpoints =
          [stub_endpoint ''users'' ''GET'' ''https://api.example.com/users'' ''secret'' None]\<rparr>
   \<and> total (printSummary (outcomes (main stub_lib stub_az stub_http stub_files ''ok.json'' w0)))
       = 1"
proof -
  have ok: "LoadConfig stub_files ''ok.json''
      = Inr \<lparr>Endpoints =
          [stub_endpoint ''users'' ''GET'' ''https://api.example.com/users'' ''secret'' None]\<rparr>"
    by (simp add: stub_defs prog_defs)
  show ?thesis
    using ok summary_divisor_nonzero [OF ok, of stub_lib stub_az stub_http w0] by simp
qed

end
